theory Spec2Isabelle
  imports Main
begin

section \<open>The ANVL codec of the EZID client\<close>

text \<open>
  The client library exists in two historical versions, \<^verbatim>\<open>src/EZID.py\<close> (version 0.3,
  Python 3) and \<^verbatim>\<open>src/EZID/EZID.py\<close> (version 0.1, Python 2). The two formatting functions
  \<^verbatim>\<open>formatAnvlFromDict\<close> and \<^verbatim>\<open>formatAnvlFromList\<close> have the same body in both.

  Strings are \<open>string\<close>; a \<open>char\<close> stands for one character whose code point is below
  256. Every character the code inspects (\<open>%\<close>, \<open>:\<close>, \<open>;\<close>, \<open>=\<close>, CR, LF, white space) is
  of that kind, and every other character is copied.
\<close>

subsection \<open>Python's string primitives\<close>

text \<open>The \<^verbatim>\<open>%X\<close> conversion: the upper-case hexadecimal numeral of a natural number.\<close>

definition hex_digit :: "nat \<Rightarrow> char" where
  "hex_digit n = ''0123456789ABCDEF'' ! (n mod 16)"

fun hex_upper :: "nat \<Rightarrow> string" where
  "hex_upper n = (if n < 16 then [hex_digit n] else hex_upper (n div 16) @ [hex_digit n])"

declare hex_upper.simps [simp del]

text \<open>The \<^verbatim>\<open>%02X\<close> conversion: \<^verbatim>\<open>%X\<close>, padded on the left with zeros to width two.\<close>

definition fmt_02X :: "nat \<Rightarrow> string" where
  "fmt_02X n = (let h = hex_upper n in replicate (2 - length h) (CHR ''0'') @ h)"

text \<open>
  The replacement function of both substitutions,
  \<^verbatim>\<open>lambda c: "%%%02X" % ord(c.group(0))\<close>, on the one matched character.
\<close>

definition pct_escape :: "char \<Rightarrow> string" where
  "pct_escape c = CHR ''%'' # fmt_02X (of_char c)"

text \<open>
  \<^verbatim>\<open>re.sub("[...]", repl, s)\<close> for a pattern that is one character class: the string is
  scanned from the left, every character of the class is replaced by \<open>repl\<close> of it, every
  other character is kept.
\<close>

fun re_sub_class :: "char list \<Rightarrow> (char \<Rightarrow> string) \<Rightarrow> string \<Rightarrow> string" where
  "re_sub_class cls repl [] = []"
| "re_sub_class cls repl (c # cs) =
     (if c \<in> set cls then repl c else [c]) @ re_sub_class cls repl cs"

text \<open>\<^verbatim>\<open>sep.join(r)\<close>.\<close>

fun join :: "string \<Rightarrow> string list \<Rightarrow> string" where
  "join sep [] = []"
| "join sep [x] = x"
| "join sep (x # y # ys) = x @ sep @ join sep (y # ys)"

text \<open>The character classes \<^verbatim>\<open>[%:\r\n]\<close> and \<^verbatim>\<open>[%\r\n]\<close>.\<close>

definition label_class :: "char list" where
  "label_class = [CHR ''%'', CHR '':'', CHR 0x0D, CHR 0x0A]"

definition value_class :: "char list" where
  "value_class = [CHR ''%'', CHR 0x0D, CHR 0x0A]"

subsection \<open>formatAnvlFromDict\<close>

text \<open>
  \<^verbatim>\<open>
  def formatAnvlFromDict(d):
      r = []
      for k, v in list(d.items()):
          label = re.sub("[%:\r\n]", lambda c: "%%%02X" % ord(c.group(0)), k)
          value = re.sub("[%\r\n]", lambda c: "%%%02X" % ord(c.group(0)), v)
          r.append("%s: %s" % (label, value))
      return "\n".join(r)
  \<close>
  The dictionary is the list of its items in iteration order. \<open>anvl_line\<close> is the body of
  the loop, \<open>anvl_loop\<close> the loop with its accumulator \<open>r\<close>.
\<close>

definition anvl_line :: "string \<Rightarrow> string \<Rightarrow> string" where
  "anvl_line k v =
     (let label = re_sub_class label_class pct_escape k;
          val = re_sub_class value_class pct_escape v
      in label @ '': '' @ val)"

fun anvl_loop :: "(string \<times> string) list \<Rightarrow> string list \<Rightarrow> string list" where
  "anvl_loop [] r = r"
| "anvl_loop ((k, v) # items) r = anvl_loop items (r @ [anvl_line k v])"

definition formatAnvlFromDict :: "(string \<times> string) list \<Rightarrow> string" where
  "formatAnvlFromDict d = join [CHR 0x0A] (anvl_loop d [])"

subsection \<open>formatAnvlFromList\<close>

text \<open>
  \<^verbatim>\<open>
  def formatAnvlFromList (l):
      r = []
      for i in range(0, len(l), 2):
          k = re.sub("[%:\r\n]", lambda c: "%%%02X" % ord(c.group(0)), l[i])
          v = re.sub("[%\r\n]", lambda c: "%%%02X" % ord(c.group(0)), l[i+1])
          r.append("%s: %s" % (k, v))
      return "\n".join(r)
  \<close>
  The loop runs over the even indices below \<open>len(l)\<close>; \<open>l[i]\<close> is in range there, and
  \<open>l[i+1]\<close> raises \<open>IndexError\<close> when \<open>i + 1\<close> is not.

  The exceptions of the model: \<open>IndexError\<close> and \<open>AttributeError\<close> are Python's own;
  \<open>HTTPError code msg body\<close> is \<^verbatim>\<open>urllib.error.HTTPError\<close> with the part of the response
  body that is still unread; \<open>RequestsHTTPError\<close> is the exception of the same name of the
  \<^verbatim>\<open>requests\<close> library, a class of its own.
\<close>

datatype error =
    IndexError
  | AttributeError
  | HTTPError nat string string
  | RequestsHTTPError nat string string

function list_loop :: "string list \<Rightarrow> nat \<Rightarrow> string list \<Rightarrow> error + string list" where
  "list_loop l i r =
     (if i < length l then
        (if i + 1 < length l then list_loop l (i + 2) (r @ [anvl_line (l ! i) (l ! (i + 1))])
         else Inl IndexError)
      else Inr r)"
  by pat_completeness auto
termination
  by (relation "measure (\<lambda>(l, i, r). length l - i)") auto

declare list_loop.simps [simp del]

definition formatAnvlFromList :: "string list \<Rightarrow> error + string" where
  "formatAnvlFromList l =
     (case list_loop l 0 [] of Inl e \<Rightarrow> Inl e | Inr r \<Rightarrow> Inr (join [CHR 0x0A] r))"


section \<open>The client\<close>

subsection \<open>More of Python's string primitives\<close>

text \<open>
  \<^verbatim>\<open>s.split(sep)\<close> for a separator of one character: the pieces between the occurrences
  of \<open>sep\<close>, the empty string giving one empty piece.
\<close>

fun split_char :: "char \<Rightarrow> string \<Rightarrow> string list" where
  "split_char sep [] = [[]]"
| "split_char sep (c # cs) =
     (if c = sep then [] # split_char sep cs
      else (case split_char sep cs of
              [] \<Rightarrow> [[c]]
            | x # xs \<Rightarrow> (c # x) # xs))"

text \<open>
  \<^verbatim>\<open>s.replace(old, new)\<close>: the occurrences of \<open>old\<close> are found from the left, without
  overlap, and each is replaced. For an empty \<open>old\<close>, Python puts \<open>new\<close> before every
  character and at the end.
\<close>

definition startswith :: "string \<Rightarrow> string \<Rightarrow> bool" where
  "startswith s p = (take (length p) s = p)"

function str_replace :: "string \<Rightarrow> string \<Rightarrow> string \<Rightarrow> string" where
  "str_replace old new s =
     (if old = [] then new @ concat (map (\<lambda>c. c # new) s)
      else if s = [] then []
      else if startswith s old then new @ str_replace old new (drop (length old) s)
      else hd s # str_replace old new (tl s))"
  by pat_completeness auto
termination
  by (relation "measure (\<lambda>(old, new, s). length s)") auto

declare str_replace.simps [simp del]

text \<open>
  \<^verbatim>\<open>s.strip()\<close> removes the white space at both ends. The characters below 256 that
  \<^verbatim>\<open>str.isspace\<close> accepts are 9 to 13, 28 to 32, 133 and 160.
\<close>

definition isspace :: "char \<Rightarrow> bool" where
  "isspace c =
     (let n = (of_char c :: nat)
      in (9 \<le> n \<and> n \<le> 13) \<or> (28 \<le> n \<and> n \<le> 32) \<or> n = 133 \<or> n = 160)"

definition strip :: "string \<Rightarrow> string" where
  "strip s = rev (dropWhile isspace (rev (dropWhile isspace s)))"

text \<open>Python's truth value of an attribute that is \<open>None\<close> or a string.\<close>

fun truthy :: "string option \<Rightarrow> bool" where
  "truthy None = False"
| "truthy (Some s) = (s \<noteq> [])"

subsection \<open>Requests, responses and the network\<close>

text \<open>
  A \<open>request\<close> is a \<^verbatim>\<open>urllib.request.Request\<close>: the method \<^verbatim>\<open>get_method()\<close> answers,
  the URL, the headers and the body. \<^verbatim>\<open>add_header\<close> sets a header, replacing one of the
  same name.
\<close>

record request =
  req_method :: string
  req_url :: string
  req_headers :: "(string \<times> string) list"
  req_data :: "string option"

fun set_header :: "string \<Rightarrow> string \<Rightarrow> (string \<times> string) list \<Rightarrow> (string \<times> string) list" where
  "set_header k v [] = [(k, v)]"
| "set_header k v ((k', v') # hs) =
     (if k' = k then (k, v) # hs else (k', v') # set_header k v hs)"

definition add_header :: "string \<Rightarrow> string \<Rightarrow> request \<Rightarrow> request" where
  "add_header k v rq = rq\<lparr>req_headers := set_header k v (req_headers rq)\<rparr>"

record response =
  resp_status :: nat
  resp_reason :: string
  resp_headers :: "(string \<times> string) list"
  resp_body :: string

text \<open>
  Header names are compared without regard to case, as the header objects of both HTTP
  libraries do; a missing header reads as \<open>None\<close>.
\<close>

definition lower_char :: "char \<Rightarrow> char" where
  "lower_char c =
     (let n = (of_char c :: nat) in if 65 \<le> n \<and> n \<le> 90 then char_of (n + 32) else c)"

fun headers_get :: "string \<Rightarrow> (string \<times> string) list \<Rightarrow> string option" where
  "headers_get name [] = None"
| "headers_get name ((k, v) # hs) =
     (if map lower_char k = map lower_char name then Some v else headers_get name hs)"

text \<open>
  The client reaches the network in two ways: \<^verbatim>\<open>requests.get(url, auth=auth)\<close> in
  \<^verbatim>\<open>login\<close>, and \<^verbatim>\<open>self._opener.open(request)\<close> everywhere else. The network is a
  parameter of the model: a function from the calls made so far and the present call to
  the response that the HTTP library ends up with (redirections and proxies, which the
  libraries handle below the client, are part of it). Every call is recorded.
\<close>

datatype net_call =
    RequestsGet string "(string \<times> string) option"
  | OpenerOpen request

type_synonym network = "net_call list \<Rightarrow> net_call \<Rightarrow> response"

subsection \<open>The client object\<close>

text \<open>
  \<^verbatim>\<open>
  def __init__(self, server=SERVER, proxy=None, credentials=None, session_id=None):
      ...
      self._server = server
      self._credentials = credentials # dict of username, password
      self._session_id = session_id
      self._cookie = None
      if self._session_id:
          self._cookie = "sessionid=" + session_id
      ...
  @session_id.setter
  def session_id(self, sid):
      self._session_id = sid
      if self._session_id:
          self._cookie = "sessionid=" + self._session_id
  \<close>
  The attributes \<^verbatim>\<open>_server\<close>, \<^verbatim>\<open>_credentials\<close>, \<^verbatim>\<open>_session_id\<close> and \<^verbatim>\<open>_cookie\<close> are the
  fields of the record; the proxy and the opener configure the transport and belong to
  the network. The credentials are the pair of \<^verbatim>\<open>username\<close> and \<^verbatim>\<open>password\<close>. The field
  \<open>session_id\<close> is also the property's getter.
\<close>

record EZIDClient =
  server :: string
  credentials :: "(string \<times> string) option"
  session_id :: "string option"
  cookie :: "string option"

definition EZIDClient_init ::
  "string \<Rightarrow> (string \<times> string) option \<Rightarrow> string option \<Rightarrow> EZIDClient" where
  "EZIDClient_init srv creds sid =
     \<lparr>server = srv, credentials = creds, session_id = sid,
      cookie = (case sid of
                  None \<Rightarrow> None
                | Some s \<Rightarrow> if truthy sid then Some (''sessionid='' @ s) else None)\<rparr>"

definition session_id_setter :: "string option \<Rightarrow> EZIDClient \<Rightarrow> EZIDClient" where
  "session_id_setter sid c =
     (let c1 = c\<lparr>session_id := sid\<rparr>
      in case session_id c1 of
           None \<Rightarrow> c1
         | Some s \<Rightarrow> if truthy (session_id c1) then c1\<lparr>cookie := Some (''sessionid='' @ s)\<rparr> else c1)"

text \<open>
  The state an operation runs in: the client object, the calls made over the network so
  far and the lines printed to standard output.
\<close>

record world =
  client :: EZIDClient
  calls :: "net_call list"
  printed :: "string list"

subsection \<open>Sending a request\<close>

text \<open>
  \<^verbatim>\<open>self._opener.open(request)\<close>: one call of the network. The opener's error processor
  (\<^verbatim>\<open>urllib.request.HTTPErrorProcessor\<close>) returns a response whose status is in 200..299
  and raises \<open>HTTPError\<close> with the status, the reason phrase and the body for any other
  response that no handler of the opener takes care of.
\<close>

definition opener_open :: "network \<Rightarrow> request \<Rightarrow> world \<Rightarrow> (error + response) \<times> world" where
  "opener_open net rq w =
     (let r = net (calls w) (OpenerOpen rq);
          w1 = w\<lparr>calls := calls w @ [OpenerOpen rq]\<rparr>
      in if 200 \<le> resp_status r \<and> resp_status r < 300 then (Inr r, w1)
         else (Inl (HTTPError (resp_status r) (resp_reason r) (resp_body r)), w1))"

text \<open>
  \<^verbatim>\<open>
  def _get_request(self, request, login=False):
      if self._cookie: request.add_header("Cookie", self._cookie)
      try:
          c = self._opener.open(request)
      except urllib.error.HTTPError as e:
          print(e.read())
          raise
      output = c.read()
      if login:
          output = c.info()["set-cookie"].split(";")[0].split("=")[1]
      return output.decode("utf-8")
  \<close>
  No caller of version 0.3 passes \<^verbatim>\<open>login=True\<close>, so the model is the function at
  \<^verbatim>\<open>login=False\<close>. \<^verbatim>\<open>e.read()\<close> reads the body of the error response to its end, so the
  error that is raised again has nothing left to read. The body of a response is
  modelled as the text it decodes to.
\<close>

definition get_request :: "network \<Rightarrow> request \<Rightarrow> world \<Rightarrow> (error + string) \<times> world" where
  "get_request net rq w =
     (let rq1 = (case cookie (client w) of
                   None \<Rightarrow> rq
                 | Some ck \<Rightarrow> if truthy (cookie (client w)) then add_header ''Cookie'' ck rq else rq)
      in case opener_open net rq1 w of
           (Inl (HTTPError code msg body), w1) \<Rightarrow>
             (Inl (HTTPError code msg []), w1\<lparr>printed := printed w1 @ [body]\<rparr>)
         | (Inl e, w1) \<Rightarrow> (Inl e, w1)
         | (Inr c, w1) \<Rightarrow> (Inr (resp_body c), w1))"

subsection \<open>view, login and logout\<close>

text \<open>
  \<^verbatim>\<open>
  def view(self, identifier):
      url = "%s/id/%s" % (self._server, identifier)
      request = urllib.request.Request(url)
      return self._get_request(request)
  \<close>
\<close>

definition view :: "network \<Rightarrow> string \<Rightarrow> world \<Rightarrow> (error + string) \<times> world" where
  "view net identifier w =
     get_request net
       \<lparr>req_method = ''GET'', req_url = server (client w) @ ''/id/'' @ identifier,
        req_headers = [], req_data = None\<rparr> w"

text \<open>
  \<^verbatim>\<open>.split(";")[0].split("=")[1]\<close> on the value of the \<^verbatim>\<open>Set-Cookie\<close> header: a missing
  header is \<open>None\<close>, which has no \<^verbatim>\<open>split\<close>; a first piece without \<open>=\<close> has no index 1.
\<close>

definition parse_set_cookie :: "string option \<Rightarrow> error + string" where
  "parse_set_cookie h =
     (case h of
        None \<Rightarrow> Inl AttributeError
      | Some s \<Rightarrow>
          (case split_char (CHR '';'') s of
             [] \<Rightarrow> Inl IndexError
           | first # _ \<Rightarrow>
               (let pieces = split_char (CHR ''='') first
                in if 1 < length pieces then Inr (pieces ! 1) else Inl IndexError)))"

text \<open>
  \<^verbatim>\<open>
  def login(self):
      url = "%s/%s" % (self._server, 'login')
      auth = None
      if self._credentials:
          username = self._credentials.get('username', '')
          password = self._credentials.get('password', '')
          auth = (username, password)
      res = requests.get(url, auth=auth)
      res.raise_for_status()
      self.session_id = res.headers.get('Set-Cookie').split(";")[0].split("=")[1]
      return self.session_id
  \<close>
  \<^verbatim>\<open>raise_for_status\<close> raises for the statuses 400..599 and for no other.
\<close>

definition login :: "network \<Rightarrow> world \<Rightarrow> (error + string) \<times> world" where
  "login net w =
     (let url = server (client w) @ ''/'' @ ''login'';
          auth = credentials (client w);
          res = net (calls w) (RequestsGet url auth);
          w1 = w\<lparr>calls := calls w @ [RequestsGet url auth]\<rparr>
      in if 400 \<le> resp_status res \<and> resp_status res < 600
         then (Inl (RequestsHTTPError (resp_status res) (resp_reason res) (resp_body res)), w1)
         else (case parse_set_cookie (headers_get ''Set-Cookie'' (resp_headers res)) of
                 Inl e \<Rightarrow> (Inl e, w1)
               | Inr sid \<Rightarrow> (Inr sid, w1\<lparr>client := session_id_setter (Some sid) (client w1)\<rparr>)))"

text \<open>
  \<^verbatim>\<open>
  def logout(self):
      request = urllib.request.Request("%s/%s" % (self._server, 'logout'))
      self.session_id = self._get_request(request)
      return self.session_id
  \<close>
\<close>

definition logout :: "network \<Rightarrow> world \<Rightarrow> (error + string) \<times> world" where
  "logout net w =
     (case get_request net
             \<lparr>req_method = ''GET'', req_url = server (client w) @ ''/'' @ ''logout'',
              req_headers = [], req_data = None\<rparr> w of
        (Inl e, w1) \<Rightarrow> (Inl e, w1)
      | (Inr out, w1) \<Rightarrow> (Inr out, w1\<lparr>client := session_id_setter (Some out) (client w1)\<rparr>))"

subsection \<open>The operations that change records\<close>

text \<open>
  All four begin with
  \<^verbatim>\<open>
      if not self.session_id:
          self.session_id = self.login()
  \<close>
  which \<open>login_if_needed\<close> models: \<open>Some e\<close> is the exception that \<^verbatim>\<open>login\<close> raised.
\<close>

definition login_if_needed :: "network \<Rightarrow> world \<Rightarrow> error option \<times> world" where
  "login_if_needed net w =
     (if \<not> truthy (session_id (client w)) then
        (case login net w of
           (Inl e, w1) \<Rightarrow> (Some e, w1)
         | (Inr sid, w1) \<Rightarrow> (None, w1\<lparr>client := session_id_setter (Some sid) (client w1)\<rparr>))
      else (None, w))"

text \<open>
  \<^verbatim>\<open>
  def update(self, identifier, data):
      if not self.session_id:
          self.session_id = self.login()
      request = urllib.request.Request("%s/id/%s" % (self._server, identifier))
      request.get_method = lambda: "POST"
      request.add_header("Content-Type", "text/plain; charset=UTF-8")
      request.data = formatAnvlFromDict(data).encode("UTF-8")
      return self._get_request(request)
  \<close>
\<close>

definition update :: "network \<Rightarrow> string \<Rightarrow> (string \<times> string) list \<Rightarrow> world \<Rightarrow> (error + string) \<times> world" where
  "update net identifier d w =
     (case login_if_needed net w of
        (Some e, w1) \<Rightarrow> (Inl e, w1)
      | (None, w1) \<Rightarrow>
          get_request net
            ((add_header ''Content-Type'' ''text/plain; charset=UTF-8''
               \<lparr>req_method = ''POST'', req_url = server (client w1) @ ''/id/'' @ identifier,
                req_headers = [], req_data = None\<rparr>)
             \<lparr>req_data := Some (formatAnvlFromDict d)\<rparr>) w1)"

text \<open>
  \<^verbatim>\<open>
  def create(self, identifier, data=None):
      if not self.session_id:
          self.session_id = self.login()
      request = urllib.request.Request("%s/id/%s" % (self._server, identifier))
      request.get_method = lambda: "PUT"
      if data:
          request.add_header("Content-Type", "text/plain; charset=UTF-8")
          request.data = formatAnvlFromDict(data).encode("UTF-8")
      return self._get_request(request)
  \<close>
  \<^verbatim>\<open>if data:\<close> holds for a dictionary that is not empty. \<open>with_data\<close> is that conditional,
  which \<^verbatim>\<open>mint\<close> repeats.
\<close>

definition with_data :: "(string \<times> string) list option \<Rightarrow> request \<Rightarrow> request" where
  "with_data d rq =
     (case d of
        None \<Rightarrow> rq
      | Some items \<Rightarrow>
          if items \<noteq> []
          then (add_header ''Content-Type'' ''text/plain; charset=UTF-8'' rq)
                 \<lparr>req_data := Some (formatAnvlFromDict items)\<rparr>
          else rq)"

definition create :: "network \<Rightarrow> string \<Rightarrow> (string \<times> string) list option \<Rightarrow> world \<Rightarrow> (error + string) \<times> world" where
  "create net identifier d w =
     (case login_if_needed net w of
        (Some e, w1) \<Rightarrow> (Inl e, w1)
      | (None, w1) \<Rightarrow>
          get_request net
            (with_data d
               \<lparr>req_method = ''PUT'', req_url = server (client w1) @ ''/id/'' @ identifier,
                req_headers = [], req_data = None\<rparr>) w1)"

text \<open>
  \<^verbatim>\<open>
  def mint(self, shoulder, data=None):
      if not self.session_id:
          self.session_id = self.login()
      request = urllib.request.Request("%s/shoulder/%s" % (self._server, shoulder))
      request.get_method = lambda: "POST"
      if data:
          request.add_header("Content-Type", "text/plain; charset=UTF-8")
          request.data = formatAnvlFromDict(data).encode("UTF-8")
      return self._get_request(request).replace('success: ','').strip()
  \<close>
\<close>

definition mint :: "network \<Rightarrow> string \<Rightarrow> (string \<times> string) list option \<Rightarrow> world \<Rightarrow> (error + string) \<times> world" where
  "mint net shoulder d w =
     (case login_if_needed net w of
        (Some e, w1) \<Rightarrow> (Inl e, w1)
      | (None, w1) \<Rightarrow>
          (case get_request net
                  (with_data d
                     \<lparr>req_method = ''POST'',
                      req_url = server (client w1) @ ''/shoulder/'' @ shoulder,
                      req_headers = [], req_data = None\<rparr>) w1 of
             (Inl e, w2) \<Rightarrow> (Inl e, w2)
           | (Inr out, w2) \<Rightarrow> (Inr (strip (str_replace ''success: '' [] out)), w2)))"

text \<open>
  \<^verbatim>\<open>
  def delete(self, identifier):
      if not self.session_id:
          self.session_id = self.login()
      request = urllib.request.Request("%s/id/%s" % (self._server, identifier))
      request.get_method = lambda: "DELETE"
      request.add_header("Content-Type", "text/plain; charset=UTF-8")
      return self._get_request(request)
  \<close>
\<close>

definition delete :: "network \<Rightarrow> string \<Rightarrow> world \<Rightarrow> (error + string) \<times> world" where
  "delete net identifier w =
     (case login_if_needed net w of
        (Some e, w1) \<Rightarrow> (Inl e, w1)
      | (None, w1) \<Rightarrow>
          get_request net
            (add_header ''Content-Type'' ''text/plain; charset=UTF-8''
               \<lparr>req_method = ''DELETE'', req_url = server (client w1) @ ''/id/'' @ identifier,
                req_headers = [], req_data = None\<rparr>) w1)"

subsection \<open>The error processor of version 0.1\<close>


section \<open>Reference definitions\<close>

subsection \<open>The text of one record entry, character by character\<close>

text \<open>
  What the specification says of the encoder: in a key, \<open>%\<close>, \<open>:\<close>, CR and LF, and in a
  value, \<open>%\<close>, CR and LF, are replaced by \<open>%\<close> and the two upper-case hexadecimal digits
  of the code point; every other character stays; a line is the key, a colon, a space
  and the value.
\<close>

definition spec_label_char :: "char \<Rightarrow> string" where
  "spec_label_char c =
     (if c = CHR ''%'' then ''%25'' else if c = CHR '':'' then ''%3A''
      else if c = CHR 0x0D then ''%0D'' else if c = CHR 0x0A then ''%0A'' else [c])"

definition spec_value_char :: "char \<Rightarrow> string" where
  "spec_value_char c =
     (if c = CHR ''%'' then ''%25''
      else if c = CHR 0x0D then ''%0D'' else if c = CHR 0x0A then ''%0A'' else [c])"

definition spec_line :: "string \<times> string \<Rightarrow> string" where
  "spec_line kv = concat (map spec_label_char (fst kv)) @ '': '' @ concat (map spec_value_char (snd kv))"

subsection \<open>A decoder of one line\<close>

text \<open>
  The repository has no decoder. This one follows the specification's words: the line
  is split at the first \<^verbatim>\<open>": "\<close>, and in both parts every \<open>%\<close> that two hexadecimal
  digits follow is replaced by the character with that code.
\<close>

definition hex_val :: "char \<Rightarrow> nat option" where
  "hex_val c =
     (let n = of_char c in
      if 48 \<le> n \<and> n \<le> 57 then Some (n - 48)
      else if 65 \<le> n \<and> n \<le> 70 then Some (n - 55)
      else if 97 \<le> n \<and> n \<le> 102 then Some (n - 87)
      else None)"

fun spec_unescape :: "string \<Rightarrow> string" where
  "spec_unescape [] = []"
| "spec_unescape (c # cs) =
     (if c = CHR ''%'' then
        (case cs of
           a # b # rest \<Rightarrow>
             (case (hex_val a, hex_val b) of
                (Some h, Some l) \<Rightarrow> char_of (16 * h + l) # spec_unescape rest
              | _ \<Rightarrow> c # spec_unescape cs)
         | _ \<Rightarrow> c # spec_unescape cs)
      else c # spec_unescape cs)"

fun spec_split_first :: "string \<Rightarrow> (string \<times> string) option" where
  "spec_split_first [] = None"
| "spec_split_first (c # cs) =
     (if c = CHR '':'' \<and> take 1 cs = '' '' then Some ([], drop 1 cs)
      else (case spec_split_first cs of
              None \<Rightarrow> None
            | Some (a, b) \<Rightarrow> Some (c # a, b)))"

definition spec_decode_line :: "string \<Rightarrow> (string \<times> string) option" where
  "spec_decode_line l =
     (case spec_split_first l of
        None \<Rightarrow> None
      | Some (a, b) \<Rightarrow> Some (spec_unescape a, spec_unescape b))"

subsection \<open>The operations as one type\<close>

text \<open>
  The operations of the client, as \<^verbatim>\<open>main\<close> dispatches on them, and the four among them
  that begin with the implicit login.
\<close>

datatype operation =
    Mint string "(string \<times> string) list option"
  | Create string "(string \<times> string) list option"
  | View string
  | Update string "(string \<times> string) list"
  | Delete string
  | Login
  | Logout

fun perform :: "network \<Rightarrow> operation \<Rightarrow> world \<Rightarrow> (error + string) \<times> world" where
  "perform net (Mint shoulder d) w = mint net shoulder d w"
| "perform net (Create identifier d) w = create net identifier d w"
| "perform net (View identifier) w = view net identifier w"
| "perform net (Update identifier d) w = update net identifier d w"
| "perform net (Delete identifier) w = delete net identifier w"
| "perform net Login w = login net w"
| "perform net Logout w = logout net w"

fun mutating :: "operation \<Rightarrow> bool" where
  "mutating (Mint shoulder d) = True"
| "mutating (Create identifier d) = True"
| "mutating (Update identifier d) = True"
| "mutating (Delete identifier) = True"
| "mutating other = False"

text \<open>
  The client objects that the interface can produce: the constructor's, and those that
  the setter of \<open>session_id\<close> and the operations make of them.
\<close>

inductive reachable :: "EZIDClient \<Rightarrow> bool" where
  init: "reachable (EZIDClient_init srv creds sid)"
| setter: "reachable c \<Longrightarrow> reachable (session_id_setter sid c)"
| step: "reachable (client w) \<Longrightarrow> reachable (client (snd (perform net op w)))"

text \<open>
  The relation between the session id and the cookie derived from it, where the session
  id is set; the request that \<^verbatim>\<open>_get_request\<close> sends for a given request; the statuses
  that the opener accepts.
\<close>

definition cookie_inv :: "EZIDClient \<Rightarrow> bool" where
  "cookie_inv c =
     (case session_id c of
        None \<Rightarrow> True
      | Some s \<Rightarrow> s = [] \<or> cookie c = Some (''sessionid='' @ s))"

definition attach_cookie :: "EZIDClient \<Rightarrow> request \<Rightarrow> request" where
  "attach_cookie c rq =
     (case cookie c of
        None \<Rightarrow> rq
      | Some ck \<Rightarrow> if ck \<noteq> [] then add_header ''Cookie'' ck rq else rq)"

definition accepted :: "response \<Rightarrow> bool" where
  "accepted r = (200 \<le> resp_status r \<and> resp_status r < 300)"

text \<open>
  The request that an operation hands to \<^verbatim>\<open>_get_request\<close> for a server address, and
  what the operation makes of the text that comes back. (\<^verbatim>\<open>login\<close> hands none over; its
  entry is the request for its URL.)
\<close>

fun op_request :: "string \<Rightarrow> operation \<Rightarrow> request" where
  "op_request srv (Mint shoulder d) =
     with_data d \<lparr>req_method = ''POST'', req_url = srv @ ''/shoulder/'' @ shoulder,
                  req_headers = [], req_data = None\<rparr>"
| "op_request srv (Create identifier d) =
     with_data d \<lparr>req_method = ''PUT'', req_url = srv @ ''/id/'' @ identifier,
                  req_headers = [], req_data = None\<rparr>"
| "op_request srv (View identifier) =
     \<lparr>req_method = ''GET'', req_url = srv @ ''/id/'' @ identifier,
      req_headers = [], req_data = None\<rparr>"
| "op_request srv (Update identifier d) =
     \<lparr>req_method = ''POST'', req_url = srv @ ''/id/'' @ identifier,
      req_headers = [(''Content-Type'', ''text/plain; charset=UTF-8'')],
      req_data = Some (formatAnvlFromDict d)\<rparr>"
| "op_request srv (Delete identifier) =
     \<lparr>req_method = ''DELETE'', req_url = srv @ ''/id/'' @ identifier,
      req_headers = [(''Content-Type'', ''text/plain; charset=UTF-8'')], req_data = None\<rparr>"
| "op_request srv Login =
     \<lparr>req_method = ''GET'', req_url = srv @ ''/login'', req_headers = [], req_data = None\<rparr>"
| "op_request srv Logout =
     \<lparr>req_method = ''GET'', req_url = srv @ ''/logout'', req_headers = [], req_data = None\<rparr>"

fun op_result :: "operation \<Rightarrow> string \<Rightarrow> string" where
  "op_result (Mint shoulder d) out = strip (str_replace ''success: '' [] out)"
| "op_result other out = out"

text \<open>The derived attribute of the data model: the cookie that belongs to a session id.\<close>

fun derived_cookie :: "string option \<Rightarrow> string option" where
  "derived_cookie None = None"
| "derived_cookie (Some s) = Some (''sessionid='' @ s)"

subsection \<open>Networks and states to run the client in\<close>

definition ok_response :: "(string \<times> string) list \<Rightarrow> string \<Rightarrow> response" where
  "ok_response hs b = \<lparr>resp_status = 200, resp_reason = ''OK'', resp_headers = hs, resp_body = b\<rparr>"

text \<open>The network that answers every login with \<open>l\<close> and every other request with \<open>r\<close>.\<close>

definition fixed_network :: "response \<Rightarrow> response \<Rightarrow> network" where
  "fixed_network l r history call = (case call of RequestsGet u a \<Rightarrow> l | OpenerOpen rq \<Rightarrow> r)"

definition fresh_world :: "EZIDClient \<Rightarrow> world" where
  "fresh_world c = \<lparr>client = c, calls = [], printed = []\<rparr>"

text \<open>Answers of the service: a rejected login, a record created, an identifier not found.\<close>

definition unauthorized :: response where
  "unauthorized = \<lparr>resp_status = 401, resp_reason = ''UNAUTHORIZED'', resp_headers = [],
                    resp_body = ''error: unauthorized''\<rparr>"




section \<open>Properties of the codec\<close>

lemma pct_escape_table:
  "pct_escape (CHR ''%'') = ''%25''" "pct_escape (CHR '':'') = ''%3A''"
  "pct_escape (CHR 0x0D) = ''%0D''" "pct_escape (CHR 0x0A) = ''%0A''"
  by (simp_all add: pct_escape_def fmt_02X_def hex_upper.simps hex_digit_def)

lemma re_sub_label: "re_sub_class label_class pct_escape s = concat (map spec_label_char s)"
  by (induction s) (auto simp: label_class_def spec_label_char_def pct_escape_table)

lemma re_sub_value: "re_sub_class value_class pct_escape s = concat (map spec_value_char s)"
  by (induction s) (auto simp: value_class_def spec_value_char_def pct_escape_table)

lemma anvl_line_spec: "anvl_line k v = spec_line (k, v)"
  by (simp add: anvl_line_def spec_line_def re_sub_label re_sub_value)

lemma anvl_loop_map: "anvl_loop d r = r @ map spec_line d"
  by (induction d r rule: anvl_loop.induct) (simp_all add: anvl_line_spec)

lemma formatAnvlFromDict_map: "formatAnvlFromDict d = join [CHR 0x0A] (map spec_line d)"
  by (simp add: formatAnvlFromDict_def anvl_loop_map)










lemma char_of_codes:
  "char_of (37::nat) = CHR ''%''" "char_of (58::nat) = CHR '':''"
  "char_of (13::nat) = CHR 0x0D" "char_of (10::nat) = CHR 0x0A"
  by code_simp+

lemma unescape_pct:
  "spec_unescape (''%25'' @ r) = CHR ''%'' # spec_unescape r"
  "spec_unescape (''%3A'' @ r) = CHR '':'' # spec_unescape r"
  "spec_unescape (''%0D'' @ r) = CHR 0x0D # spec_unescape r"
  "spec_unescape (''%0A'' @ r) = CHR 0x0A # spec_unescape r"
  by (simp_all add: hex_val_def char_of_codes)

lemma unescape_label: "spec_unescape (concat (map spec_label_char s) @ r) = s @ spec_unescape r"
proof (induction s)
  case Nil
  then show ?case by simp
next
  case (Cons c s)
  show ?case
  proof (cases "c \<in> set label_class")
    case True
    then show ?thesis using Cons unescape_pct
      by (auto simp: label_class_def spec_label_char_def simp del: spec_unescape.simps)
  next
    case False
    then have "spec_label_char c = [c]" "c \<noteq> CHR ''%''"
      by (auto simp: label_class_def spec_label_char_def)
    then show ?thesis using Cons by simp
  qed
qed

lemma unescape_value: "spec_unescape (concat (map spec_value_char s) @ r) = s @ spec_unescape r"
proof (induction s)
  case Nil
  then show ?case by simp
next
  case (Cons c s)
  show ?case
  proof (cases "c \<in> set value_class")
    case True
    then show ?thesis using Cons unescape_pct
      by (auto simp: value_class_def spec_value_char_def simp del: spec_unescape.simps)
  next
    case False
    then have "spec_value_char c = [c]" "c \<noteq> CHR ''%''"
      by (auto simp: value_class_def spec_value_char_def)
    then show ?thesis using Cons by simp
  qed
qed

lemma colon_notin_label: "CHR '':'' \<notin> set (concat (map spec_label_char s))"
  by (induction s) (auto simp: spec_label_char_def)

lemma split_first_no_colon:
  "CHR '':'' \<notin> set a \<Longrightarrow> spec_split_first (a @ '': '' @ b) = Some (a, b)"
  by (induction a) auto

text \<open>
  Claim C2. Encoding one pair of strings, whatever characters they hold, and decoding the
  line again (split at the first \<^verbatim>\<open>": "\<close>, then unescape both parts) gives the pair back.
\<close>

theorem encode_decode_roundtrip:
  "spec_decode_line (formatAnvlFromDict [(k, v)]) = Some (k, v)"
proof -
  have "formatAnvlFromDict [(k, v)]
      = concat (map spec_label_char k) @ '': '' @ concat (map spec_value_char v)"
    by (simp add: formatAnvlFromDict_map spec_line_def)
  moreover have "spec_unescape (concat (map spec_label_char k)) = k"
    using unescape_label [of k "[]"] by simp
  moreover have "spec_unescape (concat (map spec_value_char v)) = v"
    using unescape_value [of v "[]"] by simp
  ultimately show ?thesis
    using split_first_no_colon [OF colon_notin_label]
    by (simp add: spec_decode_line_def)
qed

lemma list_loop_parity:
  "even i \<Longrightarrow> i \<le> length l \<Longrightarrow>
   (odd (length l) \<longrightarrow> list_loop l i r = Inl IndexError) \<and>
   (even (length l) \<longrightarrow> (\<exists>r'. list_loop l i r = Inr r'))"
proof (induction l i r rule: list_loop.induct)
  case (1 l i r)
  show ?case
  proof (cases "i < length l")
    case False
    then have res: "list_loop l i r = Inr r"
      by (simp add: list_loop.simps [of l i r])
    from False "1.prems" have "even (length l)" by (cases "i = length l") simp_all
    with res show ?thesis by simp
  next
    case True
    note lt = this
    show ?thesis
    proof (cases "i + 1 < length l")
      case True
      then show ?thesis
        using "1.IH" [OF lt True] "1.prems" lt by (simp add: list_loop.simps [of l i r])
    next
      case False
      then have "length l = i + 1" using lt by simp
      then show ?thesis
        using "1.prems" by (simp add: list_loop.simps [of l i r])
    qed
  qed
qed

text \<open>
  Claim C9. On a list of odd length \<open>formatAnvlFromList\<close> raises \<open>IndexError\<close>; on a list
  of even length it returns a text.
\<close>

theorem formatAnvlFromList_odd_even:
  "(odd (length l) \<longrightarrow> formatAnvlFromList l = Inl IndexError) \<and>
   (even (length l) \<longrightarrow> (\<exists>s. formatAnvlFromList l = Inr s))"
  using list_loop_parity [of 0 l "[]"] by (auto simp: formatAnvlFromList_def)

theorem formatAnvlFromList_odd_even_witness:
  "odd (length [''a'', ''b'', ''c'']) \<and> formatAnvlFromList [''a'', ''b'', ''c''] = Inl IndexError \<and>
   even (length [''a'', ''b'']) \<and> (\<exists>s. formatAnvlFromList [''a'', ''b''] = Inr s)"
  using formatAnvlFromList_odd_even [of "[''a'', ''b'', ''c'']"]
    formatAnvlFromList_odd_even [of "[''a'', ''b'']"]
  by simp


section \<open>Properties of the client\<close>

lemma get_request_eq:
  "get_request net rq w =
     (let rq1 = attach_cookie (client w) rq;
          r = net (calls w) (OpenerOpen rq1);
          w1 = w\<lparr>calls := calls w @ [OpenerOpen rq1]\<rparr>
      in if accepted r then (Inr (resp_body r), w1)
         else (Inl (HTTPError (resp_status r) (resp_reason r) []),
               w1\<lparr>printed := printed w @ [resp_body r]\<rparr>))"
  by (auto simp: get_request_def opener_open_def attach_cookie_def accepted_def Let_def
           split: option.splits)

lemma get_request_client [simp]: "client (snd (get_request net rq w)) = client w"
  by (simp add: get_request_eq Let_def)

lemma get_request_calls:
  "calls (snd (get_request net rq w)) = calls w @ [OpenerOpen (attach_cookie (client w) rq)]"
  by (simp add: get_request_eq Let_def)

lemma get_request_clientD: "get_request net rq w = (r, w') \<Longrightarrow> client w' = client w"
  using get_request_client [of net rq w] by simp

lemma cookie_inv_setter [simp]: "cookie_inv (session_id_setter sid c)"
  by (cases sid) (simp_all add: cookie_inv_def session_id_setter_def Let_def)

lemma cookie_inv_init [simp]: "cookie_inv (EZIDClient_init srv creds sid)"
  by (cases sid) (simp_all add: cookie_inv_def EZIDClient_init_def)

lemma login_client:
  "client (snd (login net w)) = client w \<or>
   (\<exists>sid. client (snd (login net w)) = session_id_setter sid (client w))"
  by (auto simp: login_def Let_def split: sum.splits)

lemma cookie_inv_login: "cookie_inv (client w) \<Longrightarrow> cookie_inv (client (snd (login net w)))"
  using login_client [of net w] by auto

lemma cookie_inv_login_if_needed:
  "cookie_inv (client w) \<Longrightarrow> cookie_inv (client (snd (login_if_needed net w)))"
  using cookie_inv_login [of w net]
  by (auto simp: login_if_needed_def split: prod.splits sum.splits)

lemma mutating_client:
  "mutating op \<Longrightarrow> client (snd (perform net op w)) = client (snd (login_if_needed net w))"
  by (cases op)
     (auto simp: mint_def create_def update_def delete_def
           split: prod.splits option.splits sum.splits dest: get_request_clientD)

lemma cookie_inv_perform:
  assumes inv: "cookie_inv (client w)"
  shows "cookie_inv (client (snd (perform net op w)))"
proof (cases "mutating op")
  case True
  then show ?thesis
    using cookie_inv_login_if_needed [OF inv, of net] by (simp add: mutating_client)
next
  case False
  then show ?thesis
  proof (cases op)
    case (View i)
    then show ?thesis using inv by (simp add: view_def)
  next
    case Login
    then show ?thesis using inv by (simp add: cookie_inv_login)
  next
    case Logout
    then show ?thesis using inv
      by (auto simp: logout_def split: prod.splits sum.splits dest: get_request_clientD)
  qed simp_all
qed

lemma reachable_cookie_inv: "reachable c \<Longrightarrow> cookie_inv c"
  by (induction rule: reachable.induct) (simp_all add: cookie_inv_perform)

lemma mutating_perform_eq:
  "mutating op \<Longrightarrow>
   perform net op w =
     (case login_if_needed net w of
        (Some e, w1) \<Rightarrow> (Inl e, w1)
      | (None, w1) \<Rightarrow>
          (case get_request net (op_request (server (client w1)) op) w1 of
             (Inl e, w2) \<Rightarrow> (Inl e, w2)
           | (Inr out, w2) \<Rightarrow> (Inr (op_result op out), w2)))"
  by (cases op)
     (auto simp: mint_def create_def update_def delete_def add_header_def
           split: prod.splits option.splits sum.splits)

lemma login_if_needed_cached:
  "truthy (session_id (client w)) \<Longrightarrow> login_if_needed net w = (None, w)"
  by (simp add: login_if_needed_def)

lemma perform_cached:
  "mutating op \<Longrightarrow> truthy (session_id (client w)) \<Longrightarrow>
   perform net op w =
     (case get_request net (op_request (server (client w)) op) w of
        (Inl e, w2) \<Rightarrow> (Inl e, w2)
      | (Inr out, w2) \<Rightarrow> (Inr (op_result op out), w2))"
  by (simp add: mutating_perform_eq login_if_needed_cached)

lemma set_header_mem: "(k, v) \<in> set (set_header k v hs)"
  by (induction hs) auto

lemma attach_cookie_header:
  "cookie c = Some ck \<Longrightarrow> ck \<noteq> [] \<Longrightarrow> (''Cookie'', ck) \<in> set (req_headers (attach_cookie c rq))"
  by (simp add: attach_cookie_def add_header_def set_header_mem)

lemma perform_cached_snd:
  "mutating op \<Longrightarrow> truthy (session_id (client w)) \<Longrightarrow>
   snd (perform net op w) = snd (get_request net (op_request (server (client w)) op) w)"
  by (auto simp: perform_cached split: prod.splits sum.splits)

lemma perform_cached_calls:
  assumes "mutating op" "truthy (session_id (client w))"
  shows "calls (snd (perform net op w))
           = calls w @ [OpenerOpen (attach_cookie (client w) (op_request (server (client w)) op))]"
    and "client (snd (perform net op w)) = client w"
  using assms by (simp_all add: perform_cached_snd get_request_calls)

lemma login_calls:
  "calls (snd (login net w))
     = calls w @ [RequestsGet (server (client w) @ ''/login'') (credentials (client w))]"
  by (auto simp: login_def Let_def split: sum.splits)

lemma login_if_needed_calls:
  "\<not> truthy (session_id (client w)) \<Longrightarrow>
   calls (snd (login_if_needed net w))
     = calls w @ [RequestsGet (server (client w) @ ''/login'') (credentials (client w))]"
  using login_calls [of net w]
  by (auto simp: login_if_needed_def split: prod.splits sum.splits)

lemma perform_calls_extend:
  "mutating op \<Longrightarrow>
   \<exists>more. calls (snd (perform net op w)) = calls (snd (login_if_needed net w)) @ more"
  by (auto simp: mutating_perform_eq get_request_eq Let_def split: prod.splits option.splits sum.splits)

subsection \<open>The result of mint\<close>

text \<open>
  Claim C3. \<^verbatim>\<open>mint\<close> gives \<open>ark:/99999/fk412345\<close> for the response body
  \<open>success: ark:/99999/fk412345\<close> followed by a newline. It gives the same text for the body
  \<open>success: ark:/99999/fk4success: 12345\<close> followed by a newline: \<^verbatim>\<open>replace\<close> removes
  every \<open>success: \<close> of the body, not the leading one alone.
\<close>

theorem mint_removes_inner_marker:
  "fst (mint (fixed_network (ok_response [] []) (ok_response [] ''success: ark:/99999/fk412345\<newline>''))
          ''ark:/99999/fk4'' None
          (fresh_world (EZIDClient_init ''https://ezid.cdlib.org'' None (Some ''abc''))))
     = Inr ''ark:/99999/fk412345''
   \<and> fst (mint (fixed_network (ok_response [] []) (ok_response [] ''success: ark:/99999/fk4success: 12345\<newline>''))
          ''ark:/99999/fk4'' None
          (fresh_world (EZIDClient_init ''https://ezid.cdlib.org'' None (Some ''abc''))))
     = Inr ''ark:/99999/fk412345''"
  by code_simp

subsection \<open>Operations without a session\<close>

lemma login_rejected:
  assumes "res = net (calls w) (RequestsGet (server (client w) @ ''/login'') (credentials (client w)))"
    and "400 \<le> resp_status res" "resp_status res < 600"
  shows "login net w =
           (Inl (RequestsHTTPError (resp_status res) (resp_reason res) (resp_body res)),
            w\<lparr>calls := calls w @ [RequestsGet (server (client w) @ ''/login'') (credentials (client w))]\<rparr>)"
  using assms by (simp add: login_def Let_def)

text \<open>
  Claim C4, as the code has it. On a client without session id and without credentials,
  each of \<^verbatim>\<open>mint\<close>, \<^verbatim>\<open>create\<close>, \<^verbatim>\<open>update\<close> and \<^verbatim>\<open>delete\<close> first sends the login request,
  without credentials. When the answer to it has a status in 400..599, the operation
  raises the HTTP error of that answer and sends nothing else: the request of the
  operation itself is never sent, and the client is as it was.
\<close>

theorem mutating_op_without_credentials:
  assumes mut: "mutating op"
    and nosid: "\<not> truthy (session_id (client w))"
    and nocred: "credentials (client w) = None"
    and res: "res = net (calls w) (RequestsGet (server (client w) @ ''/login'') None)"
    and rejected: "400 \<le> resp_status res" "resp_status res < 600"
  shows "perform net op w =
           (Inl (RequestsHTTPError (resp_status res) (resp_reason res) (resp_body res)),
            w\<lparr>calls := calls w @ [RequestsGet (server (client w) @ ''/login'') None]\<rparr>)"
proof -
  have "login net w =
           (Inl (RequestsHTTPError (resp_status res) (resp_reason res) (resp_body res)),
            w\<lparr>calls := calls w @ [RequestsGet (server (client w) @ ''/login'') None]\<rparr>)"
    using login_rejected [of res net w] res rejected nocred by simp
  then have "login_if_needed net w =
           (Some (RequestsHTTPError (resp_status res) (resp_reason res) (resp_body res)),
            w\<lparr>calls := calls w @ [RequestsGet (server (client w) @ ''/login'') None]\<rparr>)"
    using nosid by (simp add: login_if_needed_def)
  then show ?thesis
    by (simp add: mutating_perform_eq [OF mut])
qed

theorem mutating_op_without_credentials_witness:
  "mutating (Mint ''ark:/99999/fk4'' None)
   \<and> \<not> truthy (session_id (client (fresh_world (EZIDClient_init ''https://ezid.cdlib.org'' None None))))
   \<and> credentials (client (fresh_world (EZIDClient_init ''https://ezid.cdlib.org'' None None))) = None
   \<and> 400 \<le> resp_status unauthorized \<and> resp_status unauthorized < 600
   \<and> perform (fixed_network unauthorized (ok_response [] ''success: ark:/99999/fk4x''))
        (Mint ''ark:/99999/fk4'' None)
        (fresh_world (EZIDClient_init ''https://ezid.cdlib.org'' None None))
     = (Inl (RequestsHTTPError 401 ''UNAUTHORIZED'' ''error: unauthorized''),
        \<lparr>client = EZIDClient_init ''https://ezid.cdlib.org'' None None,
         calls = [RequestsGet ''https://ezid.cdlib.org/login'' None], printed = []\<rparr>)"
proof -
  let ?w = "fresh_world (EZIDClient_init ''https://ezid.cdlib.org'' None None)"
  let ?net = "fixed_network unauthorized (ok_response [] ''success: ark:/99999/fk4x'')"
  have m: "mutating (Mint ''ark:/99999/fk4'' None)" by simp
  have s: "\<not> truthy (session_id (client ?w))" and c: "credentials (client ?w) = None"
    by (simp_all add: fresh_world_def EZIDClient_init_def)
  have r: "unauthorized = ?net (calls ?w) (RequestsGet (server (client ?w) @ ''/login'') None)"
    by (simp add: fixed_network_def)
  have b: "400 \<le> resp_status unauthorized" "resp_status unauthorized < 600"
    by (simp_all add: unauthorized_def)
  have "perform ?net (Mint ''ark:/99999/fk4'' None) ?w =
           (Inl (RequestsHTTPError (resp_status unauthorized) (resp_reason unauthorized)
                   (resp_body unauthorized)),
            ?w\<lparr>calls := calls ?w @ [RequestsGet (server (client ?w) @ ''/login'') None]\<rparr>)"
    using m s c r b
    by (rule mutating_op_without_credentials
          [where op = "Mint ''ark:/99999/fk4'' None" and w = ?w and res = unauthorized and net = ?net])
  with m s c b show ?thesis
    by (simp add: fresh_world_def EZIDClient_init_def unauthorized_def)
qed

text \<open>
  The client checks nothing itself, so the outcome is the server's: when the login
  request of a client without credentials is answered with a session cookie, \<^verbatim>\<open>delete\<close>
  goes on and succeeds.
\<close>

theorem mutating_op_without_credentials_counterexample:
  "session_id (EZIDClient_init ''https://ezid.cdlib.org'' None None) = None
   \<and> credentials (EZIDClient_init ''https://ezid.cdlib.org'' None None) = None
   \<and> perform (fixed_network (ok_response [(''Set-Cookie'', ''sessionid=abc; Path=/'')] [])
                             (ok_response [] ''success: ark:/99999/fk4x''))
        (Delete ''ark:/99999/fk4x'')
        (fresh_world (EZIDClient_init ''https://ezid.cdlib.org'' None None))
     = (Inr ''success: ark:/99999/fk4x'',
        \<lparr>client = \<lparr>server = ''https://ezid.cdlib.org'', credentials = None,
                    session_id = Some ''abc'', cookie = Some ''sessionid=abc''\<rparr>,
         calls = [RequestsGet ''https://ezid.cdlib.org/login'' None,
                  OpenerOpen \<lparr>req_method = ''DELETE'',
                              req_url = ''https://ezid.cdlib.org/id/ark:/99999/fk4x'',
                              req_headers = [(''Content-Type'', ''text/plain; charset=UTF-8''),
                                             (''Cookie'', ''sessionid=abc'')],
                              req_data = None\<rparr>],
         printed = []\<rparr>)"
  by code_simp

subsection \<open>Logout\<close>

text \<open>
  Claim C5. After a \<^verbatim>\<open>logout\<close> that the server confirms with the text
  \<open>success: authentication credentials flushed\<close>, the session id of the client is that
  text and the cookie is derived from it; a \<^verbatim>\<open>delete\<close> that follows sends its request
  with that cookie and no login request.
\<close>

theorem logout_leaves_session_id_set:
  "snd (logout (fixed_network (ok_response [] []) (ok_response [] ''success: authentication credentials flushed\<newline>''))
         (fresh_world (EZIDClient_init ''https://ezid.cdlib.org'' (Some (''user'', ''pass'')) (Some ''abc''))))
     = \<lparr>client = \<lparr>server = ''https://ezid.cdlib.org'', credentials = Some (''user'', ''pass''),
                   session_id = Some ''success: authentication credentials flushed\<newline>'',
                   cookie = Some ''sessionid=success: authentication credentials flushed\<newline>''\<rparr>,
        calls = [OpenerOpen \<lparr>req_method = ''GET'', req_url = ''https://ezid.cdlib.org/logout'',
                             req_headers = [(''Cookie'', ''sessionid=abc'')], req_data = None\<rparr>],
        printed = []\<rparr>
   \<and> calls (snd (delete (fixed_network (ok_response [] []) (ok_response [] ''success: authentication credentials flushed\<newline>''))
                   ''ark:/99999/fk4x''
                   (snd (logout (fixed_network (ok_response [] []) (ok_response [] ''success: authentication credentials flushed\<newline>''))
                           (fresh_world (EZIDClient_init ''https://ezid.cdlib.org'' (Some (''user'', ''pass'')) (Some ''abc'')))))))
     = [OpenerOpen \<lparr>req_method = ''GET'', req_url = ''https://ezid.cdlib.org/logout'',
                    req_headers = [(''Cookie'', ''sessionid=abc'')], req_data = None\<rparr>,
        OpenerOpen \<lparr>req_method = ''DELETE'', req_url = ''https://ezid.cdlib.org/id/ark:/99999/fk4x'',
                    req_headers = [(''Content-Type'', ''text/plain; charset=UTF-8''),
                                   (''Cookie'', ''sessionid=success: authentication credentials flushed\<newline>'')],
                    req_data = None\<rparr>]"
  by code_simp

subsection \<open>Operations with a session\<close>

text \<open>
  Claim C6. On a client that the interface can produce, a mutating operation that finds
  a session id that is not empty sends exactly one request, the operation's own, with
  the cookie of that session id, and leaves the client as it was: no login request is
  sent. When there is no session id, or an empty one, the first request it sends is the
  login request.
\<close>

theorem mutating_op_reuses_cached_session:
  assumes reach: "reachable (client w)" and mut: "mutating op"
  shows "(\<forall>sid. session_id (client w) = Some sid \<and> sid \<noteq> [] \<longrightarrow>
            (\<exists>rq. calls (snd (perform net op w)) = calls w @ [OpenerOpen rq]
                  \<and> (''Cookie'', ''sessionid='' @ sid) \<in> set (req_headers rq))
            \<and> client (snd (perform net op w)) = client w)
       \<and> (\<not> truthy (session_id (client w)) \<longrightarrow>
            take (Suc (length (calls w))) (calls (snd (perform net op w)))
              = calls w @ [RequestsGet (server (client w) @ ''/login'') (credentials (client w))])"
proof (intro conjI allI impI)
  fix sid
  assume sid: "session_id (client w) = Some sid \<and> sid \<noteq> []"
  then have tr: "truthy (session_id (client w))" by simp
  from reachable_cookie_inv [OF reach] sid
  have ck: "cookie (client w) = Some (''sessionid='' @ sid)"
    by (simp add: cookie_inv_def)
  let ?rq = "attach_cookie (client w) (op_request (server (client w)) op)"
  have "(''Cookie'', ''sessionid='' @ sid) \<in> set (req_headers ?rq)"
    using attach_cookie_header [OF ck] by simp
  then show "\<exists>rq. calls (snd (perform net op w)) = calls w @ [OpenerOpen rq]
                  \<and> (''Cookie'', ''sessionid='' @ sid) \<in> set (req_headers rq)"
    using perform_cached_calls(1) [OF mut tr, of net] by blast
  show "client (snd (perform net op w)) = client w"
    by (rule perform_cached_calls(2) [OF mut tr])
next
  assume no: "\<not> truthy (session_id (client w))"
  obtain more where "calls (snd (perform net op w)) = calls (snd (login_if_needed net w)) @ more"
    using perform_calls_extend [OF mut] by blast
  then show "take (Suc (length (calls w))) (calls (snd (perform net op w)))
              = calls w @ [RequestsGet (server (client w) @ ''/login'') (credentials (client w))]"
    by (simp add: login_if_needed_calls [OF no])
qed

theorem mutating_op_reuses_cached_session_witness:
  "reachable (client (fresh_world (EZIDClient_init ''https://ezid.cdlib.org'' None (Some ''abc''))))
   \<and> mutating (Delete ''ark:/99999/fk4x'')
   \<and> session_id (client (fresh_world (EZIDClient_init ''https://ezid.cdlib.org'' None (Some ''abc'')))) = Some ''abc''
   \<and> (\<exists>rq. calls (snd (perform (fixed_network (ok_response [] []) (ok_response [] ''success: ark:/99999/fk4x''))
                         (Delete ''ark:/99999/fk4x'')
                         (fresh_world (EZIDClient_init ''https://ezid.cdlib.org'' None (Some ''abc'')))))
              = [OpenerOpen rq]
            \<and> (''Cookie'', ''sessionid=abc'') \<in> set (req_headers rq))
   \<and> reachable (client (fresh_world (EZIDClient_init ''https://ezid.cdlib.org'' None None)))
   \<and> \<not> truthy (session_id (client (fresh_world (EZIDClient_init ''https://ezid.cdlib.org'' None None))))
   \<and> take 1 (calls (snd (perform (fixed_network (ok_response [] []) (ok_response [] ''success: ark:/99999/fk4x''))
                         (Delete ''ark:/99999/fk4x'')
                         (fresh_world (EZIDClient_init ''https://ezid.cdlib.org'' None None)))))
       = [RequestsGet ''https://ezid.cdlib.org/login'' None]"
proof -
  let ?net = "fixed_network (ok_response [] []) (ok_response [] ''success: ark:/99999/fk4x'')"
  let ?w1 = "fresh_world (EZIDClient_init ''https://ezid.cdlib.org'' None (Some ''abc''))"
  let ?w2 = "fresh_world (EZIDClient_init ''https://ezid.cdlib.org'' None None)"
  have r1: "reachable (client ?w1)" and r2: "reachable (client ?w2)"
    by (simp_all add: fresh_world_def reachable.init)
  have m: "mutating (Delete ''ark:/99999/fk4x'')" by simp
  have s1: "session_id (client ?w1) = Some ''abc''"
    and s2: "\<not> truthy (session_id (client ?w2))"
    and c1: "calls ?w1 = []" and c2: "calls ?w2 = []"
    and u2: "server (client ?w2) = ''https://ezid.cdlib.org''" "credentials (client ?w2) = None"
    by (simp_all add: fresh_world_def EZIDClient_init_def)
  from mutating_op_reuses_cached_session [OF r1 m, of ?net] s1 c1
  have a: "\<exists>rq. calls (snd (perform ?net (Delete ''ark:/99999/fk4x'') ?w1)) = [OpenerOpen rq]
            \<and> (''Cookie'', ''sessionid=abc'') \<in> set (req_headers rq)"
    by simp
  from mutating_op_reuses_cached_session [OF r2 m, of ?net] s2 c2 u2
  have b: "take 1 (calls (snd (perform ?net (Delete ''ark:/99999/fk4x'') ?w2)))
             = [RequestsGet ''https://ezid.cdlib.org/login'' None]"
    by simp
  from r1 r2 m s1 s2 a b show ?thesis by blast
qed

subsection \<open>Status codes\<close>





subsection \<open>The session id that login extracts\<close>

text \<open>
  Claim C8. For the header \<open>sessionid=abc=def; Path=/\<close>, \<^verbatim>\<open>login\<close> stores and returns
  \<open>abc\<close>: the value is cut at its own first \<open>=\<close>.
\<close>

theorem login_cuts_cookie_value:
  "parse_set_cookie (Some ''sessionid=abc=def; Path=/'') = Inr ''abc''
   \<and> login (fixed_network (ok_response [(''Set-Cookie'', ''sessionid=abc=def; Path=/'')] []) (ok_response [] []))
        (fresh_world (EZIDClient_init ''https://ezid.cdlib.org'' (Some (''user'', ''pass'')) None))
     = (Inr ''abc'',
        \<lparr>client = \<lparr>server = ''https://ezid.cdlib.org'', credentials = Some (''user'', ''pass''),
                    session_id = Some ''abc'', cookie = Some ''sessionid=abc''\<rparr>,
         calls = [RequestsGet ''https://ezid.cdlib.org/login'' (Some (''user'', ''pass''))],
         printed = []\<rparr>)"
  by code_simp

subsection \<open>Setting a session id that is empty\<close>

lemma setter_falsy:
  "\<not> truthy sid \<Longrightarrow> session_id_setter sid c = c\<lparr>session_id := sid\<rparr>"
  by (cases sid) (simp_all add: session_id_setter_def Let_def)

text \<open>
  Claim C10. Setting \<open>session_id\<close> to \<open>None\<close> or to the empty string stores the value and
  leaves the cookie as it was. When that cookie was derived from a session id that is
  not empty, the cookie is no longer the one derived from the stored session id, and
  the next request still carries it.
\<close>

theorem falsy_session_id_keeps_cookie:
  assumes falsy: "\<not> truthy sid"
  shows "session_id (session_id_setter sid c) = sid
       \<and> cookie (session_id_setter sid c) = cookie c
       \<and> (\<forall>s. cookie c = derived_cookie (Some s) \<and> s \<noteq> [] \<longrightarrow>
             cookie (session_id_setter sid c) \<noteq> derived_cookie (session_id (session_id_setter sid c))
             \<and> calls (snd (get_request net rq
                              \<lparr>client = session_id_setter sid c, calls = cs, printed = ps\<rparr>))
                 = cs @ [OpenerOpen (add_header ''Cookie'' (''sessionid='' @ s) rq)])"
proof -
  have eq: "session_id_setter sid c = c\<lparr>session_id := sid\<rparr>"
    by (rule setter_falsy [OF falsy])
  have "cookie (c\<lparr>session_id := sid\<rparr>) \<noteq> derived_cookie sid"
    if "cookie c = derived_cookie (Some s)" "s \<noteq> []" for s
    using that falsy by (cases sid) simp_all
  moreover have "calls (snd (get_request net rq \<lparr>client = c\<lparr>session_id := sid\<rparr>, calls = cs, printed = ps\<rparr>))
                 = cs @ [OpenerOpen (add_header ''Cookie'' (''sessionid='' @ s) rq)]"
    if "cookie c = derived_cookie (Some s)" for s
    using that by (simp add: get_request_calls attach_cookie_def)
  ultimately show ?thesis by (simp add: eq)
qed

theorem falsy_session_id_keeps_cookie_witness:
  "\<not> truthy None
   \<and> session_id (session_id_setter None (EZIDClient_init ''https://ezid.cdlib.org'' None (Some ''abc''))) = None
   \<and> cookie (session_id_setter None (EZIDClient_init ''https://ezid.cdlib.org'' None (Some ''abc'')))
       = Some ''sessionid=abc''
   \<and> calls (snd (get_request (fixed_network (ok_response [] []) (ok_response [] ''success: ark:/13030/c88s4n09''))
                   (op_request ''https://ezid.cdlib.org'' (View ''ark:/13030/c88s4n09''))
                   \<lparr>client = session_id_setter None (EZIDClient_init ''https://ezid.cdlib.org'' None (Some ''abc'')),
                    calls = [], printed = []\<rparr>))
       = [OpenerOpen \<lparr>req_method = ''GET'', req_url = ''https://ezid.cdlib.org/id/ark:/13030/c88s4n09'',
                      req_headers = [(''Cookie'', ''sessionid=abc'')], req_data = None\<rparr>]"
proof -
  let ?c = "EZIDClient_init ''https://ezid.cdlib.org'' None (Some ''abc'')"
  have f: "\<not> truthy None" by simp
  have ck: "cookie ?c = derived_cookie (Some ''abc'') \<and> ''abc'' \<noteq> []"
    by (simp add: EZIDClient_init_def)
  from falsy_session_id_keeps_cookie [OF f, of ?c
      "fixed_network (ok_response [] []) (ok_response [] ''success: ark:/13030/c88s4n09'')"
      "op_request ''https://ezid.cdlib.org'' (View ''ark:/13030/c88s4n09'')" "[]" "[]"] ck
  show ?thesis by (simp add: EZIDClient_init_def add_header_def)
qed

end
